theory Spec2Isabelle
  imports Complex_Main
begin

section \<open>Numbers\<close>

text \<open>
  A JavaScript number is a finite value, \<open>NaN\<close> or one of the two infinities. Every finite
  double is a real number, so a finite number is modelled by the real it denotes. The
  operations the program applies to numbers (\<open>===\<close>, \<open><\<close>, \<open>>\<close>, \<open>Math.round\<close>,
  \<open>Math.floor\<close>, \<open>Number.isFinite\<close>) are exact on doubles. The sign of zero is not
  distinguished: none of these operations observes it.
\<close>

datatype jsnum = NaN | PosInf | NegInf | Fin real

fun isFinite :: "jsnum \<Rightarrow> bool" where
  "isFinite (Fin x) = True"
| "isFinite _ = False"

text \<open>\<open>x === y\<close> on numbers: \<open>NaN\<close> equals nothing.\<close>

fun num_eq :: "jsnum \<Rightarrow> jsnum \<Rightarrow> bool" where
  "num_eq NaN _ = False"
| "num_eq _ NaN = False"
| "num_eq x y = (x = y)"

text \<open>\<open>x < y\<close> on numbers: every comparison with \<open>NaN\<close> is false.\<close>

fun num_lt :: "jsnum \<Rightarrow> jsnum \<Rightarrow> bool" where
  "num_lt NaN _ = False"
| "num_lt _ NaN = False"
| "num_lt PosInf _ = False"
| "num_lt _ NegInf = False"
| "num_lt NegInf _ = True"
| "num_lt (Fin x) PosInf = True"
| "num_lt (Fin x) (Fin y) = (x < y)"

definition num_gt :: "jsnum \<Rightarrow> jsnum \<Rightarrow> bool" where
  "num_gt x y = num_lt y x"

text \<open>
  \<open>Math.round\<close> rounds to the nearest integer, a tie going up (towards positive infinity);
  \<open>Math.floor\<close> rounds down. Both leave \<open>NaN\<close> and the infinities as they are.
\<close>

fun Math_round :: "jsnum \<Rightarrow> jsnum" where
  "Math_round (Fin x) = Fin (of_int \<lfloor>x + 1 / 2\<rfloor>)"
| "Math_round n = n"

fun Math_floor :: "jsnum \<Rightarrow> jsnum" where
  "Math_floor (Fin x) = Fin (of_int \<lfloor>x\<rfloor>)"
| "Math_floor n = n"

section \<open>Numbers read from strings\<close>

text \<open>
  The number value of a real: the double nearest to it, a tie going to the even
  significand; a real whose magnitude reaches \<open>2^1024 - 2^970\<close> becomes an infinity.
  Below \<open>2^(-1022)\<close> the doubles are \<open>2^(-1074)\<close> apart.
\<close>

definition roundHalfEven :: "real \<Rightarrow> int" where
  "roundHalfEven y =
     (let f = \<lfloor>y\<rfloor> in
      if y - of_int f < 1 / 2 then f
      else if y - of_int f > 1 / 2 then f + 1
      else if even f then f else f + 1)"

definition RoundToDouble :: "real \<Rightarrow> jsnum" where
  "RoundToDouble x =
     (if x = 0 then Fin 0
      else if \<bar>x\<bar> \<ge> 2 ^ 1024 - 2 ^ 970 then (if x > 0 then PosInf else NegInf)
      else (let e = max \<lfloor>log 2 \<bar>x\<bar>\<rfloor> (- 1022); q = 2 powi (e - 52)
            in Fin (of_int (roundHalfEven (x / q)) * q)))"

fun negate :: "jsnum \<Rightarrow> jsnum" where
  "negate NaN = NaN"
| "negate PosInf = NegInf"
| "negate NegInf = PosInf"
| "negate (Fin x) = Fin (- x)"

text \<open>
  The grammar of \<open>StrDecimalLiteral\<close>, read off the front of a string. A character of
  a string stands for one code unit below 256; the white space and the line terminators
  among them are the seven below. A reader returns what it read and the rest of the
  string. The value of a literal is the number value of the real it denotes; where a
  literal has more than twenty significant digits the standard leaves the rounding of
  the further digits to the implementation, and the exact value is taken here.
\<close>

definition isWhiteSpace :: "char \<Rightarrow> bool" where
  "isWhiteSpace c =
     (c = CHR 0x09 \<or> c = CHR 0x0A \<or> c = CHR 0x0B \<or> c = CHR 0x0C \<or> c = CHR 0x0D \<or>
      c = CHR 0x20 \<or> c = CHR 0xA0)"

definition hexDigits :: "(char \<times> nat) list" where
  "hexDigits =
     [(CHR ''0'', 0), (CHR ''1'', 1), (CHR ''2'', 2), (CHR ''3'', 3), (CHR ''4'', 4),
      (CHR ''5'', 5), (CHR ''6'', 6), (CHR ''7'', 7), (CHR ''8'', 8), (CHR ''9'', 9),
      (CHR ''a'', 10), (CHR ''b'', 11), (CHR ''c'', 12), (CHR ''d'', 13), (CHR ''e'', 14),
      (CHR ''f'', 15), (CHR ''A'', 10), (CHR ''B'', 11), (CHR ''C'', 12), (CHR ''D'', 13),
      (CHR ''E'', 14), (CHR ''F'', 15)]"

definition hexDigitValue :: "char \<Rightarrow> nat option" where
  "hexDigitValue c = map_of hexDigits c"

text \<open>The longest run of digits of a radix at the front of a string, as their values.\<close>

fun readDigits :: "nat \<Rightarrow> string \<Rightarrow> nat list \<times> string" where
  "readDigits radix [] = ([], [])"
| "readDigits radix (c # cs) =
     (case hexDigitValue c of
        None \<Rightarrow> ([], c # cs)
      | Some d \<Rightarrow>
          if d < radix then (case readDigits radix cs of (ds, r) \<Rightarrow> (d # ds, r))
          else ([], c # cs))"

definition digitsValue :: "nat \<Rightarrow> nat list \<Rightarrow> nat" where
  "digitsValue radix ds = foldl (\<lambda>n d. radix * n + d) 0 ds"

text \<open>
  \<open>ExponentPart\<close>: \<open>e\<close> or \<open>E\<close>, an optional sign and at least one digit. Where the
  string does not start with a whole exponent part, nothing is read and the exponent
  is zero.
\<close>

definition readExponentPart :: "string \<Rightarrow> int \<times> string" where
  "readExponentPart s =
     (case s of
        [] \<Rightarrow> (0, s)
      | c # cs \<Rightarrow>
          if c = CHR ''e'' \<or> c = CHR ''E'' then
            (case cs of
               [] \<Rightarrow> (0, s)
             | d # ds \<Rightarrow>
                 if d = CHR ''+'' then
                   (case readDigits 10 ds of
                      ([], r) \<Rightarrow> (0, s)
                    | (es, r) \<Rightarrow> (int (digitsValue 10 es), r))
                 else if d = CHR ''-'' then
                   (case readDigits 10 ds of
                      ([], r) \<Rightarrow> (0, s)
                    | (es, r) \<Rightarrow> (- int (digitsValue 10 es), r))
                 else
                   (case readDigits 10 cs of
                      ([], r) \<Rightarrow> (0, s)
                    | (es, r) \<Rightarrow> (int (digitsValue 10 es), r)))
          else (0, s))"

text \<open>
  The value of the digits \<open>ip\<close> before the point, the digits \<open>fp\<close> after it and the
  exponent \<open>e\<close>.
\<close>

definition decimalValue :: "nat list \<Rightarrow> nat list \<Rightarrow> int \<Rightarrow> real" where
  "decimalValue ip fp e = of_nat (digitsValue 10 (ip @ fp)) * 10 powi (e - int (length fp))"

text \<open>
  \<open>StrUnsignedDecimalLiteral\<close>: \<open>Infinity\<close>, or digits with an optional point, fraction
  and exponent, or a point with a fraction and an optional exponent. The longest prefix
  of the string that is such a literal is read; \<open>None\<close> when no prefix is one.
\<close>

definition readStrUnsignedDecimalLiteral :: "string \<Rightarrow> (jsnum \<times> string) option" where
  "readStrUnsignedDecimalLiteral s =
     (if take 8 s = ''Infinity'' then Some (PosInf, drop 8 s)
      else
        (case readDigits 10 s of
           ([], r) \<Rightarrow>
             (case r of
                [] \<Rightarrow> None
              | c # cs \<Rightarrow>
                  if c = CHR ''.'' then
                    (case readDigits 10 cs of
                       ([], r2) \<Rightarrow> None
                     | (fp, r2) \<Rightarrow>
                         (case readExponentPart r2 of
                            (e, r3) \<Rightarrow> Some (RoundToDouble (decimalValue [] fp e), r3)))
                  else None)
         | (ip, r) \<Rightarrow>
             (case r of
                [] \<Rightarrow> Some (RoundToDouble (decimalValue ip [] 0), [])
              | c # cs \<Rightarrow>
                  if c = CHR ''.'' then
                    (case readDigits 10 cs of
                       (fp, r2) \<Rightarrow>
                         (case readExponentPart r2 of
                            (e, r3) \<Rightarrow> Some (RoundToDouble (decimalValue ip fp e), r3)))
                  else
                    (case readExponentPart r of
                       (e, r3) \<Rightarrow> Some (RoundToDouble (decimalValue ip [] e), r3)))))"

text \<open>\<open>StrDecimalLiteral\<close>: an unsigned literal with an optional sign.\<close>

definition readStrDecimalLiteral :: "string \<Rightarrow> (jsnum \<times> string) option" where
  "readStrDecimalLiteral s =
     (case s of
        [] \<Rightarrow> None
      | c # cs \<Rightarrow>
          if c = CHR ''+'' then readStrUnsignedDecimalLiteral cs
          else if c = CHR ''-'' then
            (case readStrUnsignedDecimalLiteral cs of
               None \<Rightarrow> None
             | Some (v, r) \<Rightarrow> Some (negate v, r))
          else readStrUnsignedDecimalLiteral s)"

text \<open>
  \<open>Number.parseFloat\<close> on a string: leading white space is dropped, the longest prefix
  that is a \<open>StrDecimalLiteral\<close> is read and what follows it is ignored; \<open>NaN\<close> when
  no prefix is one.
\<close>

definition parseFloatString :: "string \<Rightarrow> jsnum" where
  "parseFloatString s =
     (case readStrDecimalLiteral (dropWhile isWhiteSpace s) of
        None \<Rightarrow> NaN
      | Some (v, r) \<Rightarrow> v)"

text \<open>
  \<open>ToNumber\<close> on a string (\<open>StringToNumber\<close>): the whole string, white space at both
  ends apart, is a \<open>StrDecimalLiteral\<close> or a binary, octal or hexadecimal integer
  literal; the empty string is zero, and any other string is \<open>NaN\<close>.
\<close>

definition readNonDecimal :: "nat \<Rightarrow> string \<Rightarrow> jsnum" where
  "readNonDecimal radix s =
     (case readDigits radix s of
        ([], r) \<Rightarrow> NaN
      | (ds, r) \<Rightarrow>
          if list_all isWhiteSpace r then RoundToDouble (of_nat (digitsValue radix ds))
          else NaN)"

definition StringToNumber :: "string \<Rightarrow> jsnum" where
  "StringToNumber s =
     (let t = dropWhile isWhiteSpace s in
      if t = [] then Fin 0
      else if take 2 t = ''0x'' \<or> take 2 t = ''0X'' then readNonDecimal 16 (drop 2 t)
      else if take 2 t = ''0o'' \<or> take 2 t = ''0O'' then readNonDecimal 8 (drop 2 t)
      else if take 2 t = ''0b'' \<or> take 2 t = ''0B'' then readNonDecimal 2 (drop 2 t)
      else
        (case readStrDecimalLiteral t of
           None \<Rightarrow> NaN
         | Some (v, r) \<Rightarrow> if list_all isWhiteSpace r then v else NaN))"

section \<open>Raw values\<close>

text \<open>
  The raw values the types range over: \<open>null\<close> (the SQL null), \<open>undefined\<close>, booleans,
  numbers, strings, \<open>moment\<close> objects and arrays. A \<open>moment\<close> is its time value in
  milliseconds, \<open>None\<close> for an invalid moment.
\<close>

datatype raw = JNull | JUndefined | JBool bool | JNum jsnum | JStr string
  | JMoment "int option" | JArr "raw list"

text \<open>
  The functions of the platform and of the library \<open>moment\<close> that are not modelled are
  parameters: \<open>moment\<close> applied to a value that has to be parsed or to \<open>undefined\<close>
  (the current time), the string of a number (\<open>Number.prototype.toString\<close>) and the string
  of a moment.
\<close>

record Platform =
  momentParse :: "raw \<Rightarrow> int option"
  numberToString :: "jsnum \<Rightarrow> string"
  momentToString :: "int option \<Rightarrow> string"

text \<open>
  \<open>ToString\<close>, with \<open>Array.prototype.join\<close> for an array: \<open>null\<close> and \<open>undefined\<close>
  elements give the empty string.
\<close>

fun ToString :: "Platform \<Rightarrow> raw \<Rightarrow> string"
  and join :: "Platform \<Rightarrow> raw list \<Rightarrow> string" where
  "ToString P JNull = ''null''"
| "ToString P JUndefined = ''undefined''"
| "ToString P (JBool b) = (if b then ''true'' else ''false'')"
| "ToString P (JNum v) = numberToString P v"
| "ToString P (JStr s) = s"
| "ToString P (JMoment m) = momentToString P m"
| "ToString P (JArr xs) = join P xs"
| "join P [] = []"
| "join P [x] = (if x = JNull \<or> x = JUndefined then [] else ToString P x)"
| "join P (x # y # ys) =
     (if x = JNull \<or> x = JUndefined then [] else ToString P x) @ '','' @ join P (y # ys)"

text \<open>\<open>Number.parseFloat\<close>: the argument is turned into a string and read.\<close>

definition parseFloat :: "Platform \<Rightarrow> raw \<Rightarrow> jsnum" where
  "parseFloat P r = parseFloatString (ToString P r)"

text \<open>
  \<open>ToPrimitive\<close> with the hint number: a moment gives its time value (\<open>valueOf\<close>), an
  array its string. \<open>ToNumber\<close> on a primitive value.
\<close>

fun ToPrimitive :: "Platform \<Rightarrow> raw \<Rightarrow> raw" where
  "ToPrimitive P (JMoment None) = JNum NaN"
| "ToPrimitive P (JMoment (Some t)) = JNum (Fin (of_int t))"
| "ToPrimitive P (JArr xs) = JStr (join P xs)"
| "ToPrimitive P r = r"

fun ToNumber :: "raw \<Rightarrow> jsnum" where
  "ToNumber JUndefined = NaN"
| "ToNumber JNull = Fin 0"
| "ToNumber (JBool b) = (if b then Fin 1 else Fin 0)"
| "ToNumber (JNum v) = v"
| "ToNumber (JStr s) = StringToNumber s"
| "ToNumber _ = NaN"

text \<open>
  \<open>a === b\<close> compares without conversion; two objects are equal when they are one
  object, which the raw values do not record: an array or a moment is taken to be
  different from every other operand. \<open>a < b\<close> turns both operands into primitive
  values, compares two strings by their code units, and otherwise compares the numbers
  of the two; \<open>a > b\<close> is \<open>b < a\<close>.
\<close>

fun strict_equals :: "raw \<Rightarrow> raw \<Rightarrow> bool" where
  "strict_equals JNull JNull = True"
| "strict_equals JUndefined JUndefined = True"
| "strict_equals (JBool x) (JBool y) = (x = y)"
| "strict_equals (JNum x) (JNum y) = num_eq x y"
| "strict_equals (JStr s) (JStr t) = (s = t)"
| "strict_equals _ _ = False"

fun str_lt :: "string \<Rightarrow> string \<Rightarrow> bool" where
  "str_lt [] [] = False"
| "str_lt [] (y # ys) = True"
| "str_lt (x # xs) [] = False"
| "str_lt (x # xs) (y # ys) =
     (if (of_char x :: nat) < of_char y then True
      else if (of_char y :: nat) < of_char x then False
      else str_lt xs ys)"

definition js_lt :: "Platform \<Rightarrow> raw \<Rightarrow> raw \<Rightarrow> bool" where
  "js_lt P a b =
     (case (ToPrimitive P a, ToPrimitive P b) of
        (JStr s, JStr t) \<Rightarrow> str_lt s t
      | (px, py) \<Rightarrow> num_lt (ToNumber px) (ToNumber py))"

definition js_gt :: "Platform \<Rightarrow> raw \<Rightarrow> raw \<Rightarrow> bool" where
  "js_gt P a b = js_lt P b a"

section \<open>Type descriptors\<close>

text \<open>
  Modelled from the spec: the enumeration \<open>DataType\<close> is declared in \<open>interfaces.ts\<close>,
  which is not among the sources. The spec gives its members: null, bool, int, long,
  float, decimal, text, timestamp, array.
\<close>

datatype DataType = DataType_null | DataType_bool | DataType_int | DataType_long
  | DataType_float | DataType_decimal | DataType_text | DataType_timestamp | DataType_array

definition integers :: "DataType set" where
  "integers = {DataType_int, DataType_long}"

definition numbers :: "DataType set" where
  "numbers = {DataType_int, DataType_long, DataType_decimal, DataType_float}"

text \<open>
  The classes that extend \<open>TypeBase\<close>. \<open>NumberType\<close> is private to the module and is only
  ever given a numeric kind, so its parameter ranges over the numeric kinds. The length of
  a \<open>TextType\<close> is a number or \<open>null\<close> (\<open>None\<close>). Two descriptors issued by the registry
  are the same object exactly when they have the same parameters (section Registry), so
  \<open>to === this\<close> is equality of descriptors.
\<close>

datatype NumericKind = Kind_int | Kind_long | Kind_float | Kind_decimal

fun kind :: "NumericKind \<Rightarrow> DataType" where
  "kind Kind_int = DataType_int"
| "kind Kind_long = DataType_long"
| "kind Kind_float = DataType_float"
| "kind Kind_decimal = DataType_decimal"

datatype IType = BoolType | TimestampType | NullType | NumberType NumericKind
  | TextType "int option" | ArrayType IType

fun primary :: "IType \<Rightarrow> DataType" where
  "primary BoolType = DataType_bool"
| "primary TimestampType = DataType_timestamp"
| "primary NullType = DataType_null"
| "primary (NumberType k) = kind k"
| "primary (TextType l) = DataType_text"
| "primary (ArrayType t) = DataType_array"

section \<open>Comparisons\<close>

text \<open>
  \<open>moment(a)\<close>: a moment is copied, \<open>null\<close> gives an invalid moment, a number is a time
  value in milliseconds (cut to a whole number, invalid beyond \<open>8.64e15\<close>), and any other
  value is left to the library. \<open>x.diff(y)\<close> is the difference of the two time values in
  milliseconds, \<open>NaN\<close> when one of them is invalid.
\<close>

fun moment :: "Platform \<Rightarrow> raw \<Rightarrow> int option" where
  "moment P (JMoment m) = m"
| "moment P JNull = None"
| "moment P (JNum (Fin x)) =
     (if \<bar>x\<bar> \<le> 8640000000000000 then Some (if 0 \<le> x then \<lfloor>x\<rfloor> else \<lceil>x\<rceil>) else None)"
| "moment P (JNum v) = None"
| "moment P r = momentParse P r"

fun diff :: "int option \<Rightarrow> int option \<Rightarrow> jsnum" where
  "diff (Some x) (Some y) = Fin (of_int (x - y))"
| "diff _ _ = NaN"

text \<open>
  The loops of \<open>ArrayType\<close>, over the index \<open>i\<close>, with the comparison of the element type
  as a parameter. They read \<open>a[i]\<close> and \<open>b[i]\<close> only for \<open>i\<close> below both lengths.
\<close>

function doEquals_loop :: "(raw \<Rightarrow> raw \<Rightarrow> bool) \<Rightarrow> raw list \<Rightarrow> raw list \<Rightarrow> nat \<Rightarrow> bool" where
  "doEquals_loop eq a b i =
     (if i < length a then
        (if \<not> eq (a ! i) (b ! i) then False else doEquals_loop eq a b (Suc i))
      else True)"
  by pat_completeness auto
termination
  by (relation "measure (\<lambda>(eq, a, b, i). length a - i)") auto

function doGt_loop :: "(raw \<Rightarrow> raw \<Rightarrow> bool) \<Rightarrow> raw list \<Rightarrow> raw list \<Rightarrow> nat \<Rightarrow> nat \<Rightarrow> bool" where
  "doGt_loop g a b len i =
     (if i < len then
        (if g (a ! i) (b ! i) then True else doGt_loop g a b len (Suc i))
      else length a > length b)"
  by pat_completeness auto
termination
  by (relation "measure (\<lambda>(g, a, b, len, i). len - i)") auto

function doLt_loop :: "(raw \<Rightarrow> raw \<Rightarrow> bool) \<Rightarrow> raw list \<Rightarrow> raw list \<Rightarrow> nat \<Rightarrow> nat \<Rightarrow> bool" where
  "doLt_loop l a b len i =
     (if i < len then
        (if l (a ! i) (b ! i) then True else doLt_loop l a b len (Suc i))
      else length a < length b)"
  by pat_completeness auto
termination
  by (relation "measure (\<lambda>(l, a, b, len, i). len - i)") auto

declare doEquals_loop.simps [simp del]
declare doGt_loop.simps [simp del]
declare doLt_loop.simps [simp del]

text \<open>
  \<open>equals\<close>, \<open>gt\<close> and \<open>lt\<close> of \<open>TypeBase\<close>, and the \<open>doEquals\<close>, \<open>doGt\<close> and \<open>doLt\<close>
  of each variant: \<open>TimestampType\<close>, \<open>NullType\<close> and \<open>ArrayType\<close> override them, the other
  variants inherit \<open>a === b\<close>, \<open>a > b\<close> and \<open>a < b\<close>. The operands of \<open>ArrayType\<close> are
  arrays; on any other raw value its comparisons are given the value \<open>False\<close>.
\<close>

fun equals :: "Platform \<Rightarrow> IType \<Rightarrow> raw \<Rightarrow> raw \<Rightarrow> bool"
  and doEquals :: "Platform \<Rightarrow> IType \<Rightarrow> raw \<Rightarrow> raw \<Rightarrow> bool" where
  "equals P T a b = (if a = JNull \<or> b = JNull then False else doEquals P T a b)"
| "doEquals P TimestampType a b = num_lt (diff (moment P a) (moment P b)) (Fin (1 / 10))"
| "doEquals P NullType a b = False"
| "doEquals P (ArrayType t) (JArr a) (JArr b) =
     (if length a \<noteq> length b then False else doEquals_loop (equals P t) a b 0)"
| "doEquals P (ArrayType t) a b = False"
| "doEquals P T a b = strict_equals a b"

fun gt :: "Platform \<Rightarrow> IType \<Rightarrow> raw \<Rightarrow> raw \<Rightarrow> bool"
  and doGt :: "Platform \<Rightarrow> IType \<Rightarrow> raw \<Rightarrow> raw \<Rightarrow> bool" where
  "gt P T a b = (if a = JNull \<or> b = JNull then False else doGt P T a b)"
| "doGt P TimestampType a b = num_gt (diff (moment P a) (moment P b)) (Fin 0)"
| "doGt P NullType a b = False"
| "doGt P (ArrayType t) (JArr a) (JArr b) =
     (let len = min (length a) (length b) in doGt_loop (gt P t) a b len 0)"
| "doGt P (ArrayType t) a b = False"
| "doGt P T a b = js_gt P a b"

fun lt :: "Platform \<Rightarrow> IType \<Rightarrow> raw \<Rightarrow> raw \<Rightarrow> bool"
  and doLt :: "Platform \<Rightarrow> IType \<Rightarrow> raw \<Rightarrow> raw \<Rightarrow> bool" where
  "lt P T a b = (if a = JNull \<or> b = JNull then False else doLt P T a b)"
| "doLt P TimestampType a b = num_lt (diff (moment P a) (moment P b)) (Fin 0)"
| "doLt P NullType a b = False"
| "doLt P (ArrayType t) (JArr a) (JArr b) =
     (let len = min (length a) (length b) in doLt_loop (lt P t) a b len 0)"
| "doLt P (ArrayType t) a b = False"
| "doLt P T a b = js_lt P a b"

section \<open>Convertibility\<close>

text \<open>
  \<open>canConvert\<close> of \<open>TypeBase\<close> on a resolved descriptor (\<open>makeType\<close> returns a descriptor
  as it is), and the \<open>doCanConvert\<close> hooks. \<open>NumberType\<close> overrides \<open>canConvert\<close> itself.
  \<open>BoolType\<close> and \<open>TimestampType\<close> have no hook, and the hook of \<open>TextType\<close> returns
  nothing when no case applies: \<open>this.doCanConvert && this.doCanConvert(to)\<close> is then not
  true.
\<close>

function canConvert :: "IType \<Rightarrow> IType \<Rightarrow> bool"
  and doCanConvert :: "IType \<Rightarrow> IType \<Rightarrow> bool" where
  "canConvert (NumberType k) to =
     (primary to = DataType_int \<or> primary to = DataType_long \<or>
      primary to = DataType_float \<or> primary to = DataType_decimal)"
| "canConvert BoolType to = (if to = BoolType then True else doCanConvert BoolType to)"
| "canConvert TimestampType to =
     (if to = TimestampType then True else doCanConvert TimestampType to)"
| "canConvert NullType to = (if to = NullType then True else doCanConvert NullType to)"
| "canConvert (TextType l) to =
     (if to = TextType l then True else doCanConvert (TextType l) to)"
| "canConvert (ArrayType el) to =
     (if to = ArrayType el then True else doCanConvert (ArrayType el) to)"
| "doCanConvert NullType to = True"
| "doCanConvert (TextType l) to =
     (if primary to = DataType_timestamp then True
      else if primary to = DataType_text then True
      else if primary to \<in> numbers then True
      else False)"
| "doCanConvert (ArrayType el) to =
     (case to of ArrayType x \<Rightarrow> canConvert to el | _ \<Rightarrow> False)"
| "doCanConvert BoolType to = False"
| "doCanConvert TimestampType to = False"
| "doCanConvert (NumberType k) to = False"
  by pat_completeness auto
termination
  by (relation "measure (\<lambda>x. case x of
        Inl (this, to) \<Rightarrow> 2 * (size this + size to) + 1
      | Inr (this, to) \<Rightarrow> 2 * (size this + size to))") auto

section \<open>Evaluators\<close>

typedecl ISelection

text \<open>
  What the code throws. \<open>ValueTooLong n\<close> is the \<open>QueryError\<close> with the message
  \<open>value too long for type character varying(n)\<close>; \<open>InvalidNumericLiteral k s\<close> is the
  \<open>QueryError\<close> with the message \<open>invalid input syntax for k: s\<close>; \<open>UnsupportedType k\<close>
  is the \<open>Error\<close> with the message \<open>Unsupported raw type: k\<close>; \<open>TypeError\<close> is what the
  platform throws when a property is read off \<open>null\<close> or \<open>undefined\<close>.
\<close>

datatype error =
    ValueTooLong int
  | InvalidNumericLiteral DataType raw
  | UnsupportedType DataType
  | TypeError

text \<open>
  Modelled from the spec: the class \<open>Evaluator\<close> is declared in \<open>valuetypes.ts\<close>, which is
  not among the sources. By the spec an evaluator carries a type, an id, its SQL text, a
  hash, an optional selection and a producer, which is a constant value or a function of
  the raw context; \<open>get\<close> resolves it, \<open>setType\<close> copies it with another type,
  \<open>setValue\<close> copies it with another producer, and it is constant when it needs no context.
  A producer that throws returns the error.
\<close>

datatype 'c producer = Const raw | Fn "'c \<Rightarrow> error + raw"

record 'c Evaluator =
  type :: IType
  id_ev :: string
  sql :: string
  hash :: string
  selection :: "ISelection option"
  val :: "'c producer"

definition get :: "'c Evaluator \<Rightarrow> 'c \<Rightarrow> error + raw" where
  "get e raw = (case val e of Const v \<Rightarrow> Inr v | Fn f \<Rightarrow> f raw)"

definition setType :: "'c Evaluator \<Rightarrow> IType \<Rightarrow> 'c Evaluator" where
  "setType e t = e\<lparr>type := t\<rparr>"

definition setValue :: "'c Evaluator \<Rightarrow> ('c \<Rightarrow> error + raw) \<Rightarrow> 'c Evaluator" where
  "setValue e f = e\<lparr>val := Fn f\<rparr>"

definition isConstant :: "'c Evaluator \<Rightarrow> bool" where
  "isConstant e = (case val e of Const v \<Rightarrow> True | Fn f \<Rightarrow> False)"

section \<open>Conversions\<close>

text \<open>
  \<open>NumberType.doConvert\<close>. The producer of the rounding branch rounds what is a number and
  passes every other value on.
\<close>

definition NumberType_doConvert :: "'c Evaluator \<Rightarrow> IType \<Rightarrow> 'c Evaluator" where
  "NumberType_doConvert value to =
     (if primary (type value) \<notin> integers \<and> primary to \<in> integers then
        \<lparr>type = to, id_ev = id_ev value, sql = sql value, hash = hash value,
         selection = selection value,
         val = Fn (\<lambda>raw. case get value raw of
                            Inl e \<Rightarrow> Inl e
                          | Inr got \<Rightarrow>
                              Inr (case got of JNum x \<Rightarrow> JNum (Math_round x) | _ \<Rightarrow> got))\<rparr>
      else
        \<lparr>type = to, id_ev = id_ev value, sql = sql value, hash = hash value,
         selection = selection value, val = val value\<rparr>)"

text \<open>
  The field \<open>len\<close> of a descriptor cast to \<open>TextType\<close>; \<open>x < y\<close> on two lengths, where
  \<open>null\<close> counts as zero; and the property \<open>length\<close> of a raw value: reading it off \<open>null\<close>
  or \<open>undefined\<close> throws a \<open>TypeError\<close>, strings and arrays have it, and on any other
  value it is \<open>undefined\<close> (\<open>None\<close>), which is greater than no number.
\<close>

fun len :: "IType \<Rightarrow> int option" where
  "len (TextType l) = l"
| "len _ = None"

definition len_lt :: "int option \<Rightarrow> int option \<Rightarrow> bool" where
  "len_lt x y = ((case x of None \<Rightarrow> 0 | Some n \<Rightarrow> n) < (case y of None \<Rightarrow> 0 | Some m \<Rightarrow> m))"

fun length_js :: "raw \<Rightarrow> error + nat option" where
  "length_js JNull = Inl TypeError"
| "length_js JUndefined = Inl TypeError"
| "length_js (JStr s) = Inr (Some (length s))"
| "length_js (JArr xs) = Inr (Some (length xs))"
| "length_js _ = Inr None"

text \<open>
  \<open>TextType.doConvert\<close>. It returns nothing (\<open>None\<close>) when the target is neither a
  timestamp, a text nor a number. In the text case both \<open>fromStr\<close> and \<open>toStr\<close> are the
  target \<open>to\<close>, as in the source; its test \<open>toStr.len === null || fromStr.len < toStr.len\<close>
  is written as a case on \<open>toStr.len\<close>, which gives the producer the bound it compares with.
\<close>

definition TextType_doConvert :: "Platform \<Rightarrow> 'c Evaluator \<Rightarrow> IType \<Rightarrow> 'c Evaluator option" where
  "TextType_doConvert P value to =
     (if primary to = DataType_timestamp then
        Some \<lparr>type = TimestampType, id_ev = id_ev value, sql = sql value, hash = hash value,
              selection = selection value,
              val = Fn (\<lambda>raw. case get value raw of
                                 Inl e \<Rightarrow> Inl e
                               | Inr got \<Rightarrow> Inr (JMoment (moment P got)))\<rparr>
      else if primary to = DataType_text then
        (let fromStr = to; toStr = to in
         case len toStr of
           None \<Rightarrow> Some (setType value to)
         | Some n \<Rightarrow>
             if len_lt (len fromStr) (Some n) then Some (setType value to)
             else Some (setValue (setType value toStr)
                    (\<lambda>raw. case get value raw of
                              Inl e \<Rightarrow> Inl e
                            | Inr str \<Rightarrow>
                                (case length_js str of
                                   Inl e \<Rightarrow> Inl e
                                 | Inr None \<Rightarrow> Inr str
                                 | Inr (Some k) \<Rightarrow>
                                     if int k > n then Inl (ValueTooLong n) else Inr str))))
      else if primary to \<in> numbers then
        (let isInt = primary to \<in> integers in
         Some (setValue (setType value to)
           (\<lambda>raw. case get value raw of
                     Inl e \<Rightarrow> Inl e
                   | Inr str \<Rightarrow>
                       if str = JNull \<or> str = JUndefined then Inr JNull
                       else (let v = parseFloat P str in
                             if \<not> isFinite v then Inl (InvalidNumericLiteral (primary to) str)
                             else if isInt \<and> Math_floor v \<noteq> v
                               then Inl (InvalidNumericLiteral (primary to) str)
                             else Inr (JNum v)))))
      else None)"

section \<open>Registry\<close>

text \<open>
  The table \<open>Types\<close>: an instance for each of bool, timestamp, null, float, int and long,
  and under text the function that calls \<open>makeText\<close>. It has no entry for decimal and
  array.
\<close>

datatype TypesEntry = Instance IType | TextFactory

fun Types :: "DataType \<Rightarrow> TypesEntry option" where
  "Types DataType_bool = Some (Instance BoolType)"
| "Types DataType_text = Some TextFactory"
| "Types DataType_timestamp = Some (Instance TimestampType)"
| "Types DataType_null = Some (Instance NullType)"
| "Types DataType_float = Some (Instance (NumberType Kind_float))"
| "Types DataType_int = Some (Instance (NumberType Kind_int))"
| "Types DataType_long = Some (Instance (NumberType Kind_long))"
| "Types _ = None"

text \<open>
  \<open>makeType\<close>: its argument is a name (a \<open>DataType\<close>, which is a string) or a descriptor.
  What it returns for a name is the entry of the table, whatever that is.
\<close>

datatype TypeArg = Name DataType | Descriptor IType

fun makeType :: "TypeArg \<Rightarrow> error + TypesEntry" where
  "makeType (Name to) = (case Types to of None \<Rightarrow> Inl (UnsupportedType to) | Some t \<Rightarrow> Inr t)"
| "makeType (Descriptor to) = Inr (Instance to)"

text \<open>
  The identity of descriptors. A descriptor object lives in a heap, a list in the order
  of allocation, and a reference is an index into it; the element of an array descriptor
  is a reference. The state of the module is the heap together with the two maps \<open>texts\<close>
  and \<open>arrays\<close>. Loading the module allocates the six instances of the table \<open>Types\<close>.
\<close>

datatype TypeObject = BoolObject | TimestampObject | NullObject | NumberObject NumericKind
  | TextObject "int option" | ArrayObject nat

record Registry =
  heap :: "TypeObject list"
  texts :: "int option \<Rightarrow> nat option"
  arrays :: "nat \<Rightarrow> nat option"

definition moduleInit :: Registry where
  "moduleInit =
     \<lparr>heap = [BoolObject, TimestampObject, NullObject, NumberObject Kind_float,
              NumberObject Kind_int, NumberObject Kind_long],
      texts = Map.empty, arrays = Map.empty\<rparr>"

text \<open>
  \<open>makeText\<close> and \<open>makeArray\<close> return the reference and the new state. An absent length
  is \<open>null\<close> (\<open>len ?? null\<close>), here \<open>None\<close>.
\<close>

definition makeText :: "int option \<Rightarrow> Registry \<Rightarrow> nat \<times> Registry" where
  "makeText l s =
     (case texts s l of
        Some got \<Rightarrow> (got, s)
      | None \<Rightarrow>
          (let got = length (heap s)
           in (got, s\<lparr>heap := heap s @ [TextObject l], texts := (texts s)(l \<mapsto> got)\<rparr>)))"

definition makeArray :: "nat \<Rightarrow> Registry \<Rightarrow> nat \<times> Registry" where
  "makeArray el s =
     (case arrays s el of
        Some got \<Rightarrow> (got, s)
      | None \<Rightarrow>
          (let got = length (heap s)
           in (got, s\<lparr>heap := heap s @ [ArrayObject el], arrays := (arrays s)(el \<mapsto> got)\<rparr>)))"

text \<open>Any sequence of calls of the two factories, run from a state of the module.\<close>

datatype RegistryCall = CallMakeText "int option" | CallMakeArray nat

fun call :: "RegistryCall \<Rightarrow> Registry \<Rightarrow> nat \<times> Registry" where
  "call (CallMakeText l) s = makeText l s"
| "call (CallMakeArray el) s = makeArray el s"

fun run :: "RegistryCall list \<Rightarrow> Registry \<Rightarrow> Registry" where
  "run [] s = s"
| "run (c # cs) s = run cs (snd (call c s))"

text \<open>
  The states of the module that the calls produce: no two objects of the heap are alike,
  every text or array object of the heap is the entry of its parameter in the map, and
  every entry of a map refers to the object of its key.
\<close>

definition registry_inv :: "Registry \<Rightarrow> bool" where
  "registry_inv s =
     (distinct (heap s) \<and>
      (\<forall>l. TextObject l \<in> set (heap s) \<longrightarrow> texts s l \<noteq> None) \<and>
      (\<forall>el. ArrayObject el \<in> set (heap s) \<longrightarrow> arrays s el \<noteq> None) \<and>
      (\<forall>l r. texts s l = Some r \<longrightarrow> r < length (heap s) \<and> heap s ! r = TextObject l) \<and>
      (\<forall>el r. arrays s el = Some r \<longrightarrow> r < length (heap s) \<and> heap s ! r = ArrayObject el))"

section \<open>Values of the examples\<close>

text \<open>
  A constant evaluator holding a given raw value, and a platform. The theorems hold for
  every evaluator and every platform; these two are the inputs at which they are
  evaluated, and no function of this platform is called there.
\<close>

definition exampleValue :: "raw \<Rightarrow> IType \<Rightarrow> unit Evaluator" where
  "exampleValue v t =
     \<lparr>type = t, id_ev = ''c'', sql = ''c'', hash = ''c'', selection = None, val = Const v\<rparr>"

definition examplePlatform :: Platform where
  "examplePlatform =
     \<lparr>momentParse = (\<lambda>r. None), numberToString = (\<lambda>v. []), momentToString = (\<lambda>m. [])\<rparr>"

text \<open>The descriptor objects that no factory allocates.\<close>

fun isPrimitive :: "TypeObject \<Rightarrow> bool" where
  "isPrimitive (TextObject l) = False"
| "isPrimitive (ArrayObject el) = False"
| "isPrimitive _ = True"


section \<open>Doubles\<close>

text \<open>
  A whole number of at most 53 bits divided by a power of two down to \<open>2^1022\<close> is a
  double, and is its own number value.
\<close>

lemma roundHalfEven_of_int: "roundHalfEven (of_int m) = m"
  by (simp add: roundHalfEven_def)

lemma RoundToDouble_dyadic:
  fixes n :: int and j :: nat
  assumes "n \<noteq> 0" and "\<bar>n\<bar> < 2 ^ 53" and "j \<le> 1022"
  shows "RoundToDouble (of_int n / 2 ^ j) = Fin (of_int n / 2 ^ j)"
proof -
  define x :: real where "x = of_int n / 2 ^ j"
  define e where "e = \<lfloor>log 2 \<bar>x\<bar>\<rfloor>"
  have x0: "x \<noteq> 0" using assms(1) by (simp add: x_def)
  have ax: "\<bar>x\<bar> = of_int \<bar>n\<bar> / 2 ^ j" by (simp add: x_def)
  have n1: "1 \<le> \<bar>n\<bar>" using assms(1) by simp
  have nb: "real_of_int \<bar>n\<bar> < 2 ^ 53"
  proof -
    have "real_of_int \<bar>n\<bar> < real_of_int (2 ^ 53)"
      using assms(2) by (simp only: of_int_less_iff)
    then show ?thesis by simp
  qed
  have lo: "2 powi (- int j) \<le> \<bar>x\<bar>"
  proof -
    have "(1::real) / 2 ^ j \<le> of_int \<bar>n\<bar> / 2 ^ j"
      using n1 by (simp add: divide_right_mono)
    then show ?thesis by (simp add: ax power_int_minus inverse_eq_divide)
  qed
  have hi: "\<bar>x\<bar> < 2 powi (53 - int j)"
  proof -
    have "real_of_int \<bar>n\<bar> / 2 ^ j < 2 ^ 53 / 2 ^ j"
      using nb by (simp add: divide_strict_right_mono)
    moreover have "(2::real) powi (53 - int j) = 2 ^ 53 / 2 ^ j"
      by (simp add: power_int_diff)
    ultimately show ?thesis by (simp add: ax)
  qed
  have pw: "(2::real) powr real_of_int k = 2 powi k" for k
    by (simp add: powr_real_of_int')
  have xp: "0 < \<bar>x\<bar>" using x0 by simp
  have e_lo: "- int j \<le> e"
  proof -
    have "2 powr real_of_int (- int j) \<le> \<bar>x\<bar>"
      using lo by (simp only: pw)
    then have "real_of_int (- int j) \<le> log 2 \<bar>x\<bar>"
      using le_log_iff [of 2 "\<bar>x\<bar>" "real_of_int (- int j)"] xp by simp
    then show ?thesis unfolding e_def by (simp only: le_floor_iff)
  qed
  have e_hi: "e \<le> 52 - int j"
  proof -
    have "\<bar>x\<bar> < 2 powr real_of_int (53 - int j)"
      using hi by (simp only: pw)
    then have "log 2 \<bar>x\<bar> < real_of_int (53 - int j)"
      using log_less_iff [of 2 "\<bar>x\<bar>" "real_of_int (53 - int j)"] xp by simp
    then show ?thesis unfolding e_def by linarith
  qed
  have emax: "max e (- 1022) = e" using e_lo assms(3) by simp
  define k where "k = nat (52 - int j - e)"
  have k: "int k = 52 - int j - e" using e_hi by (simp add: k_def)
  have q: "x / 2 powi (e - 52) = of_int (n * 2 ^ k)"
  proof -
    have "(2::real) powi (52 - e - int j) = 2 powi (52 - e) / 2 ^ j"
      by (simp add: power_int_diff)
    moreover have "(2::real) powi (52 - e) = 1 / 2 powi (e - 52)"
      by (simp add: power_int_diff)
    ultimately have "x / 2 powi (e - 52) = of_int n * 2 powi (52 - e - int j)"
      by (simp add: x_def)
    also have "52 - e - int j = int k" using k by simp
    finally show ?thesis by simp
  qed
  have qb: "of_int (n * 2 ^ k) * 2 powi (e - 52) = x"
    using q by (simp add: field_simps)
  have small: "\<not> (\<bar>x\<bar> \<ge> 2 ^ 1024 - 2 ^ 970)"
  proof -
    have "\<bar>x\<bar> < 2 ^ 53"
    proof -
      have "real_of_int \<bar>n\<bar> / 2 ^ j \<le> real_of_int \<bar>n\<bar> / 1"
        by (intro divide_left_mono) simp_all
      then show ?thesis using nb by (simp add: ax)
    qed
    moreover have "(2::real) ^ 53 \<le> 2 ^ 1024 - 2 ^ 970" by simp
    ultimately show ?thesis by linarith
  qed
  have "RoundToDouble x = Fin (of_int (roundHalfEven (x / 2 powi (e - 52))) * 2 powi (e - 52))"
    using x0 small emax by (simp add: RoundToDouble_def e_def [symmetric] Let_def)
  also have "\<dots> = Fin x"
    by (simp only: q roundHalfEven_of_int qb)
  finally show ?thesis by (simp add: x_def)
qed

lemma RoundToDouble_values:
  "RoundToDouble 9 = Fin 9"
  "RoundToDouble 10 = Fin 10"
  "RoundToDouble 42 = Fin 42"
  "RoundToDouble (85 / 2) = Fin (85 / 2)"
  using RoundToDouble_dyadic [of 9 0] RoundToDouble_dyadic [of 10 0]
    RoundToDouble_dyadic [of 42 0] RoundToDouble_dyadic [of 85 1]
  by simp_all

lemma RoundToDouble_not_NaN: "RoundToDouble x \<noteq> NaN"
  by (simp add: RoundToDouble_def Let_def)

lemmas read_defs = parseFloatString_def StringToNumber_def readNonDecimal_def
  readStrDecimalLiteral_def readStrUnsignedDecimalLiteral_def readExponentPart_def
  decimalValue_def digitsValue_def hexDigitValue_def hexDigits_def isWhiteSpace_def


lemma js_comparison_values:
  "js_gt P (JNum (Fin 2)) JNull"
  "js_lt P JNull (JNum (Fin 2))"
  "js_gt P (JStr ''10'') (JNum (Fin 9))"
  "\<not> js_gt P (JStr ''10'') (JStr ''9'')"
  "\<not> js_lt P JUndefined (JNum (Fin 2))"
  "js_lt P (JBool False) (JBool True)"
  "js_lt P (JMoment (Some 0)) (JNum (Fin 1))"
  by (simp_all add: js_gt_def js_lt_def read_defs RoundToDouble_values)

section \<open>Comparisons of the dispatcher\<close>

text \<open>
  C1. For every type variant and all raw values, \<open>equals\<close>, \<open>gt\<close> and \<open>lt\<close> are false when
  either operand is the SQL null (both orders, and null with null); when neither operand
  is null they are the variant's \<open>doEquals\<close>, \<open>doGt\<close> and \<open>doLt\<close>.
\<close>

theorem dispatcher_null_comparisons:
  "(a = JNull \<or> b = JNull \<longrightarrow> \<not> equals P T a b \<and> \<not> gt P T a b \<and> \<not> lt P T a b) \<and>
   (a \<noteq> JNull \<and> b \<noteq> JNull \<longrightarrow>
      equals P T a b = doEquals P T a b \<and> gt P T a b = doGt P T a b \<and>
      lt P T a b = doLt P T a b)"
  by simp

text \<open>
  The witness, at an int type. The hooks themselves hold of these operands:
  \<open>null === null\<close>, \<open>2 > null\<close> and \<open>null < 2\<close> are true, so it is the test of the
  dispatcher that makes the three comparisons false.
\<close>

theorem dispatcher_null_comparisons_witness:
  "\<not> equals examplePlatform (NumberType Kind_int) JNull JNull \<and>
   doEquals examplePlatform (NumberType Kind_int) JNull JNull \<and>
   \<not> gt examplePlatform (NumberType Kind_int) (JNum (Fin 2)) JNull \<and>
   doGt examplePlatform (NumberType Kind_int) (JNum (Fin 2)) JNull \<and>
   \<not> lt examplePlatform (NumberType Kind_int) JNull (JNum (Fin 2)) \<and>
   doLt examplePlatform (NumberType Kind_int) JNull (JNum (Fin 2)) \<and>
   equals examplePlatform (NumberType Kind_int) (JNum (Fin 2)) (JNum (Fin 2)) \<and>
   gt examplePlatform (NumberType Kind_int) (JNum (Fin 2)) (JNum (Fin 1)) \<and>
   \<not> lt examplePlatform (NumberType Kind_int) (JNum (Fin 2)) (JNum (Fin 1))"
  using dispatcher_null_comparisons [of JNull JNull examplePlatform "NumberType Kind_int"]
    dispatcher_null_comparisons [of "JNum (Fin 2)" JNull examplePlatform "NumberType Kind_int"]
    dispatcher_null_comparisons [of JNull "JNum (Fin 2)" examplePlatform "NumberType Kind_int"]
    dispatcher_null_comparisons
      [of "JNum (Fin 2)" "JNum (Fin 2)" examplePlatform "NumberType Kind_int"]
    dispatcher_null_comparisons
      [of "JNum (Fin 2)" "JNum (Fin 1)" examplePlatform "NumberType Kind_int"]
  by (simp add: js_gt_def js_lt_def)

section \<open>Timestamps\<close>

text \<open>
  On two valid moments \<open>doEquals\<close> is \<open>a - b < 0.1\<close> with the signed difference in
  whole milliseconds, which is \<open>a \<le> b\<close>.
\<close>

lemma timestamp_doEquals_valid:
  "doEquals P TimestampType (JMoment (Some x)) (JMoment (Some y)) = (x \<le> y)"
proof -
  have "(real_of_int (x - y) < 1 / 10) = (x - y < 1)"
  proof
    assume "real_of_int (x - y) < 1 / 10"
    then have "real_of_int (x - y) < 1" by linarith
    then show "x - y < 1" by linarith
  next
    assume "x - y < 1"
    then have "x - y \<le> 0" by linarith
    then have "real_of_int (x - y) \<le> 0" by linarith
    then show "real_of_int (x - y) < 1 / 10" by linarith
  qed
  then show ?thesis by auto
qed

text \<open>
  C2. The claim is that two timestamps are equal exactly when they differ by less than
  the epsilon, in either order. The code compares the signed difference: a timestamp is
  equal to one a second later, and not the other way round, and it is less than it too.
\<close>

theorem timestamp_equals_earlier:
  "equals P TimestampType (JMoment (Some 0)) (JMoment (Some 1000)) \<and>
   \<not> equals P TimestampType (JMoment (Some 1000)) (JMoment (Some 0)) \<and>
   lt P TimestampType (JMoment (Some 0)) (JMoment (Some 1000))"
  by simp

section \<open>Arrays\<close>

text \<open>What the three loops compute.\<close>

lemma doEquals_loop_all:
  "doEquals_loop eq a b i = (\<forall>j. i \<le> j \<and> j < length a \<longrightarrow> eq (a ! j) (b ! j))"
proof (induction eq a b i rule: doEquals_loop.induct)
  case (1 eq a b i)
  show ?case
  proof (cases "i < length a")
    case False
    then show ?thesis by (subst doEquals_loop.simps) auto
  next
    case True
    show ?thesis
    proof (cases "eq (a ! i) (b ! i)")
      case False
      with True show ?thesis by (subst doEquals_loop.simps) auto
    next
      case e: True
      have "(\<forall>j. Suc i \<le> j \<and> j < length a \<longrightarrow> eq (a ! j) (b ! j)) =
            (\<forall>j. i \<le> j \<and> j < length a \<longrightarrow> eq (a ! j) (b ! j))"
        using e by (metis Suc_leD Suc_leI le_neq_implies_less)
      with True e "1.IH" show ?thesis by (subst doEquals_loop.simps) simp
    qed
  qed
qed

lemma doGt_loop_ex:
  "doGt_loop g a b n i = ((\<exists>j. i \<le> j \<and> j < n \<and> g (a ! j) (b ! j)) \<or> length a > length b)"
proof (induction g a b n i rule: doGt_loop.induct)
  case (1 g a b n i)
  show ?case
  proof (cases "i < n")
    case False
    then show ?thesis by (subst doGt_loop.simps) auto
  next
    case True
    show ?thesis
    proof (cases "g (a ! i) (b ! i)")
      case g: True
      with True show ?thesis by (subst doGt_loop.simps) auto
    next
      case False
      have "(\<exists>j. Suc i \<le> j \<and> j < n \<and> g (a ! j) (b ! j)) =
            (\<exists>j. i \<le> j \<and> j < n \<and> g (a ! j) (b ! j))"
        using False by (metis Suc_leD Suc_leI le_neq_implies_less)
      with True False "1.IH" show ?thesis by (subst doGt_loop.simps) simp
    qed
  qed
qed

lemma doLt_loop_ex:
  "doLt_loop l a b n i = ((\<exists>j. i \<le> j \<and> j < n \<and> l (a ! j) (b ! j)) \<or> length a < length b)"
proof (induction l a b n i rule: doLt_loop.induct)
  case (1 l a b n i)
  show ?case
  proof (cases "i < n")
    case False
    then show ?thesis by (subst doLt_loop.simps) auto
  next
    case True
    show ?thesis
    proof (cases "l (a ! i) (b ! i)")
      case l: True
      with True show ?thesis by (subst doLt_loop.simps) auto
    next
      case False
      have "(\<exists>j. Suc i \<le> j \<and> j < n \<and> l (a ! j) (b ! j)) =
            (\<exists>j. i \<le> j \<and> j < n \<and> l (a ! j) (b ! j))"
        using False by (metis Suc_leD Suc_leI le_neq_implies_less)
      with True False "1.IH" show ?thesis by (subst doLt_loop.simps) simp
    qed
  qed
qed

text \<open>
  Two arrays are equal exactly when they have one length and equal elements at every
  index, under \<open>equals\<close> of the element type. An array is greater than another exactly
  when some index below both lengths has a greater left element, or no index has and the
  left array is longer; the first index at which the two differ plays no part.
\<close>

lemma array_doEquals_pointwise:
  "doEquals P (ArrayType t) (JArr a) (JArr b) =
     (length a = length b \<and> (\<forall>j < length a. equals P t (a ! j) (b ! j)))"
  by (simp add: doEquals_loop_all del: equals.simps)

lemma array_doGt_any_index:
  "doGt P (ArrayType t) (JArr a) (JArr b) =
     ((\<exists>j < min (length a) (length b). gt P t (a ! j) (b ! j)) \<or> length a > length b)"
  by (simp add: doGt_loop_ex del: gt.simps)

lemma array_doLt_any_index:
  "doLt P (ArrayType t) (JArr a) (JArr b) =
     ((\<exists>j < min (length a) (length b). lt P t (a ! j) (b ! j)) \<or> length a < length b)"
  by (simp add: doLt_loop_ex del: lt.simps)

text \<open>
  C4. The claim is that \<open>a > b\<close> holds exactly when the first index at which the elements
  differ has the greater element on the left, or one array is a prefix of the other and
  the left one is longer. In the code \<open>[1, 5]\<close> is greater than \<open>[2, 3]\<close>, whose first
  element is greater, and less than it as well; and \<open>[0, 0]\<close> is greater than \<open>[1]\<close>.
\<close>

theorem array_gt_not_lexicographic:
  "doGt P (ArrayType (NumberType Kind_int))
      (JArr [JNum (Fin 1), JNum (Fin 5)]) (JArr [JNum (Fin 2), JNum (Fin 3)]) \<and>
   doLt P (ArrayType (NumberType Kind_int))
      (JArr [JNum (Fin 1), JNum (Fin 5)]) (JArr [JNum (Fin 2), JNum (Fin 3)]) \<and>
   doGt P (ArrayType (NumberType Kind_int))
      (JArr [JNum (Fin 0), JNum (Fin 0)]) (JArr [JNum (Fin 1)])"
  by (simp add: js_gt_def js_lt_def doGt_loop.simps doLt_loop.simps)

text \<open>
  C5. The claim is that an array type converts to exactly the array types whose element
  type is convertible with its own. The hook asks whether the target array type converts
  to the element type of the source: an array of int does not convert to an array of
  float, although int and float convert to each other.
\<close>

theorem array_canConvert_elements:
  "\<not> canConvert (ArrayType (NumberType Kind_int)) (ArrayType (NumberType Kind_float)) \<and>
   canConvert (NumberType Kind_int) (NumberType Kind_float) \<and>
   canConvert (NumberType Kind_float) (NumberType Kind_int)"
  by simp

section \<open>Conversions of numbers\<close>

lemma NumberType_doConvert_rounding:
  assumes "primary (type value) \<notin> integers" and "primary to \<in> integers"
  shows "type (NumberType_doConvert value to) = to"
    and "get (NumberType_doConvert value to) raw =
           (case get value raw of
              Inl e \<Rightarrow> Inl e
            | Inr got \<Rightarrow> Inr (case got of JNum x \<Rightarrow> JNum (Math_round x) | _ \<Rightarrow> got))"
  using assms by (simp_all add: NumberType_doConvert_def get_def)

lemma NumberType_doConvert_passthrough:
  assumes "primary (type value) \<in> integers \<or> primary to \<notin> integers"
  shows "NumberType_doConvert value to = value\<lparr>type := to\<rparr>"
  using assms by (auto simp: NumberType_doConvert_def)

lemma kind_integers:
  "(kind k \<in> integers) = (k \<in> {Kind_int, Kind_long})"
  "(kind k \<notin> integers) = (k \<in> {Kind_float, Kind_decimal})"
  by (cases k; simp add: integers_def)+

text \<open>
  C7. A conversion from a float or decimal evaluator to int or long carries the target
  type, and where the source yields the finite number \<open>x\<close> it yields the integer
  \<open>\<lfloor>x + 1/2\<rfloor>\<close>, which is within one half of \<open>x\<close>: the value is rounded, not
  truncated. Every other conversion between numeric types is the source evaluator with
  the target type, and yields what the source yields.
\<close>

theorem number_doConvert:
  assumes "type value = NumberType ks" and "to = NumberType kt"
  shows "(ks \<in> {Kind_float, Kind_decimal} \<and> kt \<in> {Kind_int, Kind_long} \<longrightarrow>
           type (NumberType_doConvert value to) = to \<and>
           (get value raw = Inr (JNum (Fin x)) \<longrightarrow>
              get (NumberType_doConvert value to) raw =
                Inr (JNum (Fin (of_int \<lfloor>x + 1 / 2\<rfloor>))) \<and>
              \<bar>real_of_int \<lfloor>x + 1 / 2\<rfloor> - x\<bar> \<le> 1 / 2)) \<and>
         (\<not> (ks \<in> {Kind_float, Kind_decimal} \<and> kt \<in> {Kind_int, Kind_long}) \<longrightarrow>
           NumberType_doConvert value to = value\<lparr>type := to\<rparr> \<and>
           get (NumberType_doConvert value to) raw = get value raw)"
proof (intro conjI impI)
  assume "ks \<in> {Kind_float, Kind_decimal} \<and> kt \<in> {Kind_int, Kind_long}"
  then have c: "primary (type value) \<notin> integers" "primary to \<in> integers"
    using assms kind_integers [of ks] kind_integers [of kt] by auto
  show "type (NumberType_doConvert value to) = to"
    by (rule NumberType_doConvert_rounding [OF c])
  assume "get value raw = Inr (JNum (Fin x))"
  then show "get (NumberType_doConvert value to) raw =
      Inr (JNum (Fin (of_int \<lfloor>x + 1 / 2\<rfloor>)))"
    by (simp add: NumberType_doConvert_rounding [OF c])
  show "\<bar>real_of_int \<lfloor>x + 1 / 2\<rfloor> - x\<bar> \<le> 1 / 2"
    by linarith
next
  assume "\<not> (ks \<in> {Kind_float, Kind_decimal} \<and> kt \<in> {Kind_int, Kind_long})"
  then have c: "primary (type value) \<in> integers \<or> primary to \<notin> integers"
    using assms kind_integers [of ks] kind_integers [of kt] by auto
  show p: "NumberType_doConvert value to = value\<lparr>type := to\<rparr>"
    by (rule NumberType_doConvert_passthrough [OF c])
  show "get (NumberType_doConvert value to) raw = get value raw"
    by (simp add: p get_def)
qed

text \<open>
  The witness: \<open>2.5\<close> becomes \<open>3\<close>, and \<open>2.4\<close>, which as a double is
  \<open>5404319552844595 / 2^51\<close>, becomes \<open>2\<close>; from decimal to float the evaluator only
  changes its type.
\<close>

theorem number_doConvert_witness:
  "get (NumberType_doConvert (exampleValue (JNum (Fin (5 / 2))) (NumberType Kind_decimal))
          (NumberType Kind_int)) () = Inr (JNum (Fin 3)) \<and>
   get (NumberType_doConvert
          (exampleValue (JNum (Fin (5404319552844595 / 2251799813685248)))
             (NumberType Kind_decimal))
          (NumberType Kind_int)) () = Inr (JNum (Fin 2)) \<and>
   NumberType_doConvert (exampleValue (JNum (Fin (5 / 2))) (NumberType Kind_decimal))
          (NumberType Kind_float) =
     (exampleValue (JNum (Fin (5 / 2))) (NumberType Kind_decimal))\<lparr>type := NumberType Kind_float\<rparr>"
proof -
  have t: "type (exampleValue v (NumberType Kind_decimal)) = NumberType Kind_decimal" for v
    by (simp add: exampleValue_def)
  have g: "get (exampleValue v (NumberType Kind_decimal)) () = Inr v" for v
    by (simp add: exampleValue_def get_def)
  show ?thesis
    using number_doConvert [OF t [of "JNum (Fin (5 / 2))"] refl [of "NumberType Kind_int"],
        where raw = "()" and x = "5 / 2"]
      number_doConvert [OF t [of "JNum (Fin (5404319552844595 / 2251799813685248))"]
        refl [of "NumberType Kind_int"],
        where raw = "()" and x = "5404319552844595 / 2251799813685248"]
      number_doConvert [OF t [of "JNum (Fin (5 / 2))"] refl [of "NumberType Kind_float"],
        where raw = "()"]
    by (simp add: g)
qed

section \<open>Conversions of text\<close>

lemma numbers_not_text:
  assumes "primary to \<in> numbers"
  shows "primary to \<noteq> DataType_timestamp" and "primary to \<noteq> DataType_text"
  using assms by (auto simp: numbers_def)


lemma readStrUnsignedDecimalLiteral_not_NaN:
  "readStrUnsignedDecimalLiteral s = Some (v, r) \<Longrightarrow> v \<noteq> NaN"
  by (auto simp: readStrUnsignedDecimalLiteral_def RoundToDouble_not_NaN
      split: if_splits prod.splits list.splits)

lemma readStrDecimalLiteral_not_NaN:
  "readStrDecimalLiteral s = Some (v, r) \<Longrightarrow> v \<noteq> NaN"
  by (cases v)
     (auto simp: readStrDecimalLiteral_def
       dest: readStrUnsignedDecimalLiteral_not_NaN
       split: if_splits list.splits option.splits prod.splits elim: negate.elims)

lemma parseFloatString_NaN:
  "(parseFloatString s = NaN) = (readStrDecimalLiteral (dropWhile isWhiteSpace s) = None)"
  by (auto simp: parseFloatString_def dest: readStrDecimalLiteral_not_NaN
      split: option.splits prod.splits)




text \<open>
  C10. Where the source yields \<open>null\<close> or \<open>undefined\<close>, the conversion of a text evaluator
  to a numeric type yields \<open>null\<close>; it raises no error.
\<close>

theorem text_to_numeric_null:
  assumes "primary to \<in> numbers"
    and "get value raw = Inr JNull \<or> get value raw = Inr JUndefined"
  shows "\<exists>e. TextType_doConvert P value to = Some e \<and> get e raw = Inr JNull"
  using assms numbers_not_text [OF assms(1)]
  by (auto simp: TextType_doConvert_def setValue_def setType_def get_def Let_def)

theorem text_to_numeric_null_witness:
  "(\<exists>e. TextType_doConvert examplePlatform (exampleValue JNull (TextType None))
          (NumberType Kind_int) = Some e \<and>
        get e () = Inr JNull) \<and>
   (\<exists>e. TextType_doConvert examplePlatform (exampleValue JUndefined (TextType (Some 3)))
          (NumberType Kind_float) = Some e \<and>
        get e () = Inr JNull)"
proof -
  have n: "primary (NumberType Kind_int) \<in> numbers" "primary (NumberType Kind_float) \<in> numbers"
    by (simp_all add: numbers_def)
  have g1: "get (exampleValue JNull (TextType None)) () = Inr JNull \<or>
            get (exampleValue JNull (TextType None)) () = Inr JUndefined"
    by (simp add: get_def exampleValue_def)
  have g2: "get (exampleValue JUndefined (TextType (Some 3))) () = Inr JNull \<or>
            get (exampleValue JUndefined (TextType (Some 3))) () = Inr JUndefined"
    by (simp add: get_def exampleValue_def)
  show ?thesis
    using text_to_numeric_null [where P = examplePlatform, OF n(1) g1]
      text_to_numeric_null [where P = examplePlatform, OF n(2) g2]
    by simp
qed

text \<open>
  A conversion to the unbounded text type is the source evaluator with the target type.
  A conversion to a bounded text type carries the target type and checks the length of
  the string the source yields against the bound, when it is resolved.
\<close>

lemma text_to_unbounded_text:
  "TextType_doConvert P value (TextType None) = Some (setType value (TextType None))"
  by (simp add: TextType_doConvert_def)

lemma text_to_bounded_text:
  assumes "get value raw = Inr (JStr s)"
  shows "\<exists>e. TextType_doConvert P value (TextType (Some n)) = Some e \<and>
           type e = TextType (Some n) \<and>
           get e raw = (if int (length s) > n then Inl (ValueTooLong n) else Inr (JStr s))"
  using assms
  by (simp add: TextType_doConvert_def len_lt_def setValue_def setType_def get_def)

text \<open>
  The text \<open>hello\<close> converted to the bound 3 fails when it is resolved, and converted
  to the bound 10 it is the same string.
\<close>

lemma text_hello_bounds:
  "(\<exists>e. TextType_doConvert P (exampleValue (JStr ''hello'') (TextType None))
           (TextType (Some 3)) = Some e \<and>
         get e () = Inl (ValueTooLong 3)) \<and>
   (\<exists>e. TextType_doConvert P (exampleValue (JStr ''hello'') (TextType None))
           (TextType (Some 10)) = Some e \<and>
         get e () = Inr (JStr ''hello''))"
proof -
  have g: "get (exampleValue (JStr ''hello'') (TextType None)) () = Inr (JStr ''hello'')"
    by (simp add: get_def exampleValue_def)
  show ?thesis
    using text_to_bounded_text [OF g, of P 3] text_to_bounded_text [OF g, of P 10]
    by auto
qed

text \<open>
  C3. The claim is that a conversion to a bound that is not tighter than the bound of the
  source is the source evaluator with the target type and no change of the value. The
  code compares the bound of the target with itself, so every bounded target gets the
  producer that checks the length. The conversion of a text of bound 5 to the bound 10
  is not the evaluator with the new type: a constant one is no longer constant, and one
  that yields \<open>null\<close> fails with a \<open>TypeError\<close> when it is resolved.
\<close>

theorem text_to_wider_text:
  "TextType_doConvert P (exampleValue (JStr ''hi'') (TextType (Some 5))) (TextType (Some 10))
     \<noteq> Some (setType (exampleValue (JStr ''hi'') (TextType (Some 5))) (TextType (Some 10))) \<and>
   (\<exists>e. TextType_doConvert P (exampleValue (JStr ''hi'') (TextType (Some 5)))
           (TextType (Some 10)) = Some e \<and>
         isConstant (exampleValue (JStr ''hi'') (TextType (Some 5))) \<and> \<not> isConstant e) \<and>
   (\<exists>e. TextType_doConvert P (exampleValue JNull (TextType (Some 5)))
           (TextType (Some 10)) = Some e \<and>
         get (setType (exampleValue JNull (TextType (Some 5))) (TextType (Some 10))) () =
           Inr JNull \<and>
         get e () = Inl TypeError)"
  by (simp add: TextType_doConvert_def len_lt_def setValue_def setType_def get_def
      isConstant_def exampleValue_def)

section \<open>The registry\<close>

lemma makeText_stores: "texts (snd (makeText l s)) l = Some (fst (makeText l s))"
  by (simp add: makeText_def Let_def split: option.splits)

lemma makeArray_stores: "arrays (snd (makeArray el s)) el = Some (fst (makeArray el s))"
  by (simp add: makeArray_def Let_def split: option.splits)

lemma call_keeps_texts: "texts s l = Some r \<Longrightarrow> texts (snd (call c s)) l = Some r"
  by (cases c) (auto simp: makeText_def makeArray_def Let_def split: option.splits)

lemma call_keeps_arrays: "arrays s el = Some r \<Longrightarrow> arrays (snd (call c s)) el = Some r"
  by (cases c) (auto simp: makeText_def makeArray_def Let_def split: option.splits)

lemma run_keeps_texts: "texts s l = Some r \<Longrightarrow> texts (run cs s) l = Some r"
  by (induction cs arbitrary: s) (simp_all add: call_keeps_texts)

lemma run_keeps_arrays: "arrays s el = Some r \<Longrightarrow> arrays (run cs s) el = Some r"
  by (induction cs arbitrary: s) (simp_all add: call_keeps_arrays)

lemma makeText_hit: "texts s l = Some r \<Longrightarrow> makeText l s = (r, s)"
  by (simp add: makeText_def)

lemma makeArray_hit: "arrays s el = Some r \<Longrightarrow> makeArray el s = (r, s)"
  by (simp add: makeArray_def)

lemma call_count_primitive:
  "isPrimitive p \<Longrightarrow> count_list (heap (snd (call c s))) p = count_list (heap s) p"
  by (cases c; cases p) (auto simp: makeText_def makeArray_def Let_def split: option.splits)

lemma run_count_primitive:
  "isPrimitive p \<Longrightarrow> count_list (heap (run cs s)) p = count_list (heap s) p"
  by (induction cs arbitrary: s) (simp_all add: call_count_primitive)

text \<open>
  C8. A call of \<open>makeText\<close> with a length, made after a call with the same length and any
  calls of the factories in between, returns the reference the first call returned and
  leaves the state as it is; the length may be absent. The same holds of \<open>makeArray\<close>
  and an element descriptor. And whatever calls are made after the module is loaded,
  the heap holds one object of each kind of the table \<open>Types\<close>.
\<close>

theorem registry_memoized:
  "makeText l (run cs (snd (makeText l s))) =
     (fst (makeText l s), run cs (snd (makeText l s))) \<and>
   makeArray el (run cs (snd (makeArray el s))) =
     (fst (makeArray el s), run cs (snd (makeArray el s))) \<and>
   count_list (heap (run cs moduleInit)) BoolObject = 1 \<and>
   count_list (heap (run cs moduleInit)) TimestampObject = 1 \<and>
   count_list (heap (run cs moduleInit)) NullObject = 1 \<and>
   count_list (heap (run cs moduleInit)) (NumberObject Kind_float) = 1 \<and>
   count_list (heap (run cs moduleInit)) (NumberObject Kind_int) = 1 \<and>
   count_list (heap (run cs moduleInit)) (NumberObject Kind_long) = 1"
proof -
  have t: "makeText l (run cs (snd (makeText l s))) =
     (fst (makeText l s), run cs (snd (makeText l s)))"
    by (rule makeText_hit, rule run_keeps_texts, rule makeText_stores)
  have a: "makeArray el (run cs (snd (makeArray el s))) =
     (fst (makeArray el s), run cs (snd (makeArray el s)))"
    by (rule makeArray_hit, rule run_keeps_arrays, rule makeArray_stores)
  have p: "isPrimitive p \<Longrightarrow>
      count_list (heap (run cs moduleInit)) p = count_list (heap moduleInit) p" for p
    by (rule run_count_primitive)
  have i: "heap moduleInit =
      [BoolObject, TimestampObject, NullObject, NumberObject Kind_float,
       NumberObject Kind_int, NumberObject Kind_long]"
    by (simp add: moduleInit_def)
  show ?thesis
    using t a by (simp add: p i)
qed

text \<open>
  After any calls the objects of the heap are pairwise different, so two references to
  descriptors with the same parameters are one reference, and the reference a factory
  returns is that of an object with the parameter it was called with.
\<close>

lemma registry_inv_init: "registry_inv moduleInit"
  by (simp add: registry_inv_def moduleInit_def)

lemma registry_inv_makeText:
  assumes "registry_inv s"
  shows "registry_inv (snd (makeText l s))"
proof (cases "texts s l")
  case (Some r)
  then show ?thesis using assms by (simp add: makeText_def)
next
  case None
  then have new: "TextObject l \<notin> set (heap s)"
    using assms by (auto simp: registry_inv_def)
  have s': "snd (makeText l s) =
      s\<lparr>heap := heap s @ [TextObject l], texts := (texts s)(l \<mapsto> length (heap s))\<rparr>"
    using None by (simp add: makeText_def Let_def)
  show ?thesis
    unfolding s' registry_inv_def
    using assms new
    by (auto simp: registry_inv_def nth_append intro: less_SucI)
qed

lemma registry_inv_makeArray:
  assumes "registry_inv s"
  shows "registry_inv (snd (makeArray el s))"
proof (cases "arrays s el")
  case (Some r)
  then show ?thesis using assms by (simp add: makeArray_def)
next
  case None
  then have new: "ArrayObject el \<notin> set (heap s)"
    using assms by (auto simp: registry_inv_def)
  have s': "snd (makeArray el s) =
      s\<lparr>heap := heap s @ [ArrayObject el], arrays := (arrays s)(el \<mapsto> length (heap s))\<rparr>"
    using None by (simp add: makeArray_def Let_def)
  show ?thesis
    unfolding s' registry_inv_def
    using assms new
    by (auto simp: registry_inv_def nth_append intro: less_SucI)
qed

lemma registry_inv_run: "registry_inv s \<Longrightarrow> registry_inv (run cs s)"
proof (induction cs arbitrary: s)
  case Nil
  then show ?case by simp
next
  case (Cons c cs)
  have "registry_inv (snd (call c s))"
    using Cons.prems by (cases c) (simp_all add: registry_inv_makeText registry_inv_makeArray)
  then show ?case by (simp add: Cons.IH)
qed

lemma registry_distinct: "distinct (heap (run cs moduleInit))"
  using registry_inv_run [OF registry_inv_init, of cs] by (simp add: registry_inv_def)

lemma makeText_object:
  assumes "s = run cs moduleInit"
  shows "heap (snd (makeText l s)) ! fst (makeText l s) = TextObject l \<and>
         fst (makeText l s) < length (heap (snd (makeText l s)))"
proof -
  have "registry_inv (snd (makeText l s))"
    using assms registry_inv_run [OF registry_inv_init] registry_inv_makeText by simp
  then show ?thesis
    using makeText_stores [of l s] by (simp add: registry_inv_def)
qed

lemma makeArray_object:
  assumes "s = run cs moduleInit"
  shows "heap (snd (makeArray el s)) ! fst (makeArray el s) = ArrayObject el \<and>
         fst (makeArray el s) < length (heap (snd (makeArray el s)))"
proof -
  have "registry_inv (snd (makeArray el s))"
    using assms registry_inv_run [OF registry_inv_init] registry_inv_makeArray by simp
  then show ?thesis
    using makeArray_stores [of el s] by (simp add: registry_inv_def)
qed

text \<open>
  A descriptor is returned as it is, the names bool, timestamp, null, float, int and long
  yield the instance of the table, and the names decimal and array fail.
\<close>

lemma makeType_descriptor: "makeType (Descriptor t) = Inr (Instance t)"
  by simp

lemma makeType_names:
  "makeType (Name DataType_bool) = Inr (Instance BoolType) \<and>
   makeType (Name DataType_timestamp) = Inr (Instance TimestampType) \<and>
   makeType (Name DataType_null) = Inr (Instance NullType) \<and>
   makeType (Name DataType_float) = Inr (Instance (NumberType Kind_float)) \<and>
   makeType (Name DataType_int) = Inr (Instance (NumberType Kind_int)) \<and>
   makeType (Name DataType_long) = Inr (Instance (NumberType Kind_long)) \<and>
   makeType (Name DataType_decimal) = Inl (UnsupportedType DataType_decimal) \<and>
   makeType (Name DataType_array) = Inl (UnsupportedType DataType_array)"
  by simp

text \<open>
  C9. The claim is that every name other than that of a primitive kind without
  parameters fails, the names of the kinds with parameters included. The name text has
  an entry in the table, the function that makes text types, and \<open>makeType\<close> returns
  that function with no error.
\<close>

theorem makeType_text:
  "makeType (Name DataType_text) = Inr TextFactory"
  by simp

end
